theory Spec2Isabelle
  imports Main "HOL-Library.Sublist"
begin

section \<open>JavaScript values\<close>

text \<open>
  The server in \<^verbatim>\<open>auth.js\<close> handles untyped data: query parameters, the JSON bodies
  of the identity provider and the fields of the profile it keeps. A value is one of
  JavaScript's primitives, an array or a plain object. Numbers are integers: the model
  is exact for the numbers JavaScript holds exactly and prints in plain decimal notation
  (magnitude up to \<open>2 ^ 53\<close>); fractions and larger magnitudes are not represented. An
  object is the list of its own properties, the first binding of a key counting.
\<close>

datatype jsval =
    Undefined
  | Null
  | Bool bool
  | Num int
  | Str string
  | Arr "jsval list"
  | Obj "(string \<times> jsval) list"

text \<open>An exception: its \<^verbatim>\<open>message\<close> and, for an HTTP client error that carries
  one, the \<^verbatim>\<open>response\<close> (status and data).\<close>

datatype js_error = JsError (message: string) (response: "(nat \<times> jsval) option")

definition TypeError :: "string \<Rightarrow> js_error" where
  "TypeError m = JsError m None"

text \<open>Truthiness, as \<^verbatim>\<open>if (v)\<close>, \<^verbatim>\<open>!v\<close> and \<^verbatim>\<open>a || b\<close> test it.\<close>

fun truthy :: "jsval \<Rightarrow> bool" where
  "truthy Undefined = False"
| "truthy Null = False"
| "truthy (Bool b) = b"
| "truthy (Num n) = (n \<noteq> 0)"
| "truthy (Str s) = (s \<noteq> [])"
| "truthy (Arr xs) = True"
| "truthy (Obj kvs) = True"

text \<open>Decimal digits of a number, for its conversion to a string.\<close>

definition digit_char :: "nat \<Rightarrow> char" where
  "digit_char n = ''0123456789'' ! n"

fun show_nat :: "nat \<Rightarrow> string" where
  "show_nat n = (if n < 10 then [digit_char n] else show_nat (n div 10) @ [digit_char (n mod 10)])"

definition show_int :: "int \<Rightarrow> string" where
  "show_int i = (if i < 0 then CHR ''-'' # show_nat (nat (- i)) else show_nat (nat i))"

text \<open>
  Conversion to a string, as a template literal \<^verbatim>\<open>`${v}`\<close> performs it. An array joins
  its elements with commas, \<^verbatim>\<open>null\<close> and \<^verbatim>\<open>undefined\<close> elements giving the empty
  string. A plain object gives \<^verbatim>\<open>[object Object]\<close>, unless it has a property of its own
  named \<^verbatim>\<open>toString\<close>: parsed data holds no functions, so that property is not callable,
  the inherited \<^verbatim>\<open>valueOf\<close> returns the object itself, and the conversion throws.
\<close>

fun js_String :: "jsval \<Rightarrow> js_error + string"
  and js_join :: "jsval list \<Rightarrow> js_error + string" where
  "js_String Undefined = Inr ''undefined''"
| "js_String Null = Inr ''null''"
| "js_String (Bool b) = Inr (if b then ''true'' else ''false'')"
| "js_String (Num n) = Inr (show_int n)"
| "js_String (Str s) = Inr s"
| "js_String (Arr xs) = js_join xs"
| "js_String (Obj kvs) =
     (if map_of kvs ''toString'' \<noteq> None
      then Inl (TypeError ''Cannot convert object to primitive value'')
      else Inr ''[object Object]'')"
| "js_join [] = Inr []"
| "js_join (x # xs) =
     (case (if x = Undefined \<or> x = Null then Inr [] else js_String x) of
        Inl e \<Rightarrow> Inl e
      | Inr s \<Rightarrow>
          (if xs = [] then Inr s
           else (case js_join xs of Inl e \<Rightarrow> Inl e | Inr t \<Rightarrow> Inr (s @ '','' @ t))))"

declare show_nat.simps [simp del]

text \<open>
  Reading a property \<^verbatim>\<open>v.k\<close> and destructuring \<^verbatim>\<open>const { k } = v\<close>: both throw on
  \<^verbatim>\<open>null\<close> and \<^verbatim>\<open>undefined\<close>, each with the runtime's message for it (the
  destructuring names the expression that was destructured), find an object's own
  property, and are \<^verbatim>\<open>undefined\<close> otherwise. The keys the server reads
  (\<^verbatim>\<open>access_token\<close>, \<^verbatim>\<open>id\<close>, \<^verbatim>\<open>email\<close>, \<^verbatim>\<open>name\<close>, \<^verbatim>\<open>picture\<close>, \<^verbatim>\<open>code\<close>,
  \<^verbatim>\<open>error\<close>) are on no prototype of a primitive, an array or a plain object.
\<close>

definition nullish :: "jsval \<Rightarrow> bool" where
  "nullish v = (v = Undefined \<or> v = Null)"

fun js_prop :: "jsval \<Rightarrow> string \<Rightarrow> jsval" where
  "js_prop (Obj kvs) k = (case map_of kvs k of None \<Rightarrow> Undefined | Some v \<Rightarrow> v)"
| "js_prop v k = Undefined"

definition quoted :: "string \<Rightarrow> string" where
  "quoted s = [CHR 0x27] @ s @ [CHR 0x27]"

definition js_get :: "jsval \<Rightarrow> string \<Rightarrow> js_error + jsval" where
  "js_get v k =
     (if nullish v
      then Inl (TypeError (''Cannot read properties of '' @ (if v = Null then ''null'' else ''undefined'')
                            @ '' (reading '' @ quoted k @ '')''))
      else Inr (js_prop v k))"

definition js_destructure :: "jsval \<Rightarrow> string \<Rightarrow> string \<Rightarrow> js_error + jsval" where
  "js_destructure v k source =
     (if nullish v
      then Inl (TypeError (''Cannot destructure property '' @ quoted k @ '' of '' @ quoted source
                            @ '' as it is '' @ (if v = Null then ''null'' else ''undefined'') @ ''.''))
      else Inr (js_prop v k))"

text \<open>\<^verbatim>\<open>Array.prototype.join\<close> on an array of strings.\<close>

fun join :: "string \<Rightarrow> string list \<Rightarrow> string" where
  "join sep [] = []"
| "join sep [x] = x"
| "join sep (x # y # ys) = x @ sep @ join sep (y # ys)"

section \<open>Configuration\<close>

text \<open>
  \<^verbatim>\<open>process.env\<close>, after the \<^verbatim>\<open>.env\<close> file has been loaded into it: a variable is
  a string or is \<^verbatim>\<open>undefined\<close>.
\<close>

type_synonym process_env = "string \<Rightarrow> string option"

definition env_value :: "string option \<Rightarrow> jsval" where
  "env_value v = (case v of None \<Rightarrow> Undefined | Some s \<Rightarrow> Str s)"

text \<open>\<^verbatim>\<open>v || d\<close> for a value that is a string or absent (\<^verbatim>\<open>undefined\<close>,
  \<^verbatim>\<open>null\<close>), with a string default.\<close>

definition or_default :: "string option \<Rightarrow> string \<Rightarrow> string" where
  "or_default v d = (case v of None \<Rightarrow> d | Some s \<Rightarrow> if truthy (Str s) then s else d)"

record database_config =
  db_url :: "string option"
  db_key :: "string option"
  db_required :: bool

record google_config =
  clientId :: "string option"
  clientSecret :: "string option"
  redirectUri :: string
  google_required :: bool

record server_config =
  port :: jsval
  nodeEnv :: string
  server_required :: bool

record env_config =
  database :: database_config
  oauth_google :: google_config
  server :: server_config

definition envConfig :: "process_env \<Rightarrow> env_config" where
  "envConfig env =
     \<lparr> database = \<lparr> db_url = env ''SUPABASE_URL'', db_key = env ''SUPABASE_ANON_KEY'',
                     db_required = True \<rparr>,
       oauth_google = \<lparr> clientId = env ''GOOGLE_CLIENT_ID'',
                         clientSecret = env ''GOOGLE_CLIENT_SECRET'',
                         redirectUri = or_default (env ''REDIRECT_URI'')
                                         ''http://localhost:3000/auth/google/callback'',
                         google_required = True \<rparr>,
       server = \<lparr> port = (if truthy (env_value (env ''PORT'')) then env_value (env ''PORT'')
                           else Num 3000),
                   nodeEnv = or_default (env ''NODE_ENV'') ''development'',
                   server_required = False \<rparr> \<rparr>"

text \<open>
  \<^verbatim>\<open>validateConfig\<close> collects the names of the required variables that are falsy
  (\<^verbatim>\<open>undefined\<close> or the empty string), in the order of its four tests. With a name
  missing it prints two lines and calls \<^verbatim>\<open>process.exit(1)\<close>; otherwise it prints one
  line and returns. The result is the console output and the exit status, \<open>None\<close> when
  the function returns to its caller.
\<close>

definition validateConfig :: "env_config \<Rightarrow> string list \<times> nat option" where
  "validateConfig cfg =
     (let missingVars = [];
          missingVars = (if \<not> truthy (env_value (db_url (database cfg)))
                         then missingVars @ [''SUPABASE_URL''] else missingVars);
          missingVars = (if \<not> truthy (env_value (db_key (database cfg)))
                         then missingVars @ [''SUPABASE_ANON_KEY''] else missingVars);
          missingVars = (if \<not> truthy (env_value (clientId (oauth_google cfg)))
                         then missingVars @ [''GOOGLE_CLIENT_ID''] else missingVars);
          missingVars = (if \<not> truthy (env_value (clientSecret (oauth_google cfg)))
                         then missingVars @ [''GOOGLE_CLIENT_SECRET''] else missingVars)
      in if length missingVars > 0
         then ([''Missing required environment variables. Please check your .env file.'',
                ''Required variables: '' @ join '', '' missingVars], Some 1)
         else ([''All required environment variables are set''], None))"

section \<open>The session slot and the start of the process\<close>

text \<open>The profile kept in memory, \<^verbatim>\<open>{id, email, name, picture}\<close> (the field
  \<^verbatim>\<open>id\<close> is \<open>user_id\<close> here), and the single variable \<^verbatim>\<open>currentUser\<close> that
  holds it or \<^verbatim>\<open>null\<close>.\<close>

record authenticated_user =
  user_id :: jsval
  email :: jsval
  name :: jsval
  picture :: jsval

record app_state =
  currentUser :: "authenticated_user option"

text \<open>
  The module's top level: the configuration is built and validated; an exit there ends
  the process before the database client is created, the routes are registered and
  \<^verbatim>\<open>app.listen\<close> is called. Otherwise the server listens with an empty session slot.
  The diagnostic lines printed before the validation and by the \<^verbatim>\<open>listen\<close> callback
  are left out of the console output.
\<close>

datatype process = Exited nat | Listening env_config app_state

definition startup :: "process_env \<Rightarrow> string list \<times> process" where
  "startup env =
     (let cfg = envConfig env in
      case validateConfig cfg of
        (out, Some status) \<Rightarrow> (out, Exited status)
      | (out, None) \<Rightarrow> (out, Listening cfg \<lparr> currentUser = None \<rparr>))"

section \<open>Responses and the outside world\<close>

text \<open>
  The three ways a handler answers: \<^verbatim>\<open>res.status(n).send(html)\<close> (\<^verbatim>\<open>res.send\<close> alone
  is status 200), \<^verbatim>\<open>res.status(n).json(value)\<close> and \<^verbatim>\<open>res.redirect(url)\<close>, which
  answers 302 with the URL as location.
\<close>

datatype response = Send nat string | SendJson nat jsval | RedirectTo string

fun status :: "response \<Rightarrow> nat" where
  "status (Send n html) = n"
| "status (SendJson n v) = n"
| "status (RedirectTo url) = 302"

text \<open>
  What a handler call ends in: a response, or, for the asynchronous callback handler, a
  rejected promise when it throws outside its \<^verbatim>\<open>try\<close> block; the handler then has sent
  nothing.
\<close>

datatype outcome = Responded response | Rejected js_error

text \<open>
  The identity provider and the user store are inputs of the model. An HTTP request
  either fails in transport or comes back with a status and a body; the HTTP client
  (axios, with its default \<^verbatim>\<open>validateStatus\<close>) resolves with the body for a status from
  200 to 299 and rejects otherwise. The store client returns \<^verbatim>\<open>{data, error}\<close>, the
  error being \<^verbatim>\<open>null\<close> or an object with \<^verbatim>\<open>message\<close>, \<^verbatim>\<open>details\<close>, \<^verbatim>\<open>hint\<close> and
  \<^verbatim>\<open>code\<close>; a client that throws instead is covered too.
\<close>

datatype http_outcome = TransportFailure string | HttpResponse nat jsval

definition axios_settle :: "http_outcome \<Rightarrow> js_error + jsval" where
  "axios_settle r =
     (case r of
        TransportFailure m \<Rightarrow> Inl (JsError m None)
      | HttpResponse s d \<Rightarrow>
          if 200 \<le> s \<and> s < 300 then Inr d
          else Inl (JsError (''Request failed with status code '' @ show_nat s) (Some (s, d))))"

record token_params =
  tp_code :: jsval
  tp_client_id :: "string option"
  tp_client_secret :: "string option"
  tp_redirect_uri :: string
  tp_grant_type :: string

record user_row =
  row_email :: jsval
  row_name :: jsval
  row_picture :: jsval
  row_google_id :: jsval
  row_last_login :: string

record store_error =
  se_message :: string
  se_details :: "string option"
  se_hint :: "string option"
  se_code :: string

datatype upsert_outcome = UpsertResult "store_error option" | UpsertThrew js_error

text \<open>
  The world a request runs in: the token endpoint (answering the POST with the given
  parameters), the userinfo endpoint (answering the GET with the given
  \<^verbatim>\<open>Authorization\<close> header), the upsert into the table \<^verbatim>\<open>users\<close> on conflict of
  \<^verbatim>\<open>email\<close>, and the clock's \<^verbatim>\<open>new Date().toISOString()\<close>.
\<close>

record world =
  token_endpoint :: "token_params \<Rightarrow> http_outcome"
  userinfo_endpoint :: "string \<Rightarrow> http_outcome"
  users_upsert :: "user_row \<Rightarrow> upsert_outcome"
  now :: string

text \<open>The outbound calls of a request, in the order they are made.\<close>

datatype outbound = TokenExchange token_params | UserinfoFetch string | StoreUpsert user_row

section \<open>Pages\<close>

text \<open>
  The HTML the handlers send. The static markup is abridged (indentation, line breaks,
  style sheets and pictographs are left out); every interpolated value is in its place.
\<close>

definition welcome_page :: "string \<Rightarrow> string \<Rightarrow> string \<Rightarrow> string" where
  \<open>welcome_page name_s picture_s email_s =
     ''<!DOCTYPE html><html><head><title>CVrio - Welcome</title></head><body><div class="container">''
     @ ''<h1>Welcome to CVrio!</h1><h2>Hello, '' @ name_s @ ''!</h2>''
     @ ''<img src="'' @ picture_s @ ''" alt="Profile Picture" class="profile-img">''
     @ ''<p><strong>Email:</strong> '' @ email_s @ ''</p>''
     @ ''<div><a href="/profile" class="btn">View Profile API</a>''
     @ ''<a href="/logout" class="btn logout-btn">Logout</a></div></div></body></html>''\<close>

definition login_page :: string where
  \<open>login_page =
     ''<!DOCTYPE html><html><head><title>CVrio - Login</title></head><body><div class="container">''
     @ ''<h1>CVrio</h1><h2>Welcome! Please sign in to continue.</h2>''
     @ ''<p>Secure authentication with Google</p>''
     @ ''<a href="/auth/google" class="google-btn"><span class="google-icon"></span>Sign in with Google</a>''
     @ ''</div></body></html>''\<close>

definition oauth_error_page :: "string \<Rightarrow> string" where
  \<open>oauth_error_page error_s =
     ''<h2>Authentication Error</h2><p>Error: '' @ error_s @ ''</p><a href="/">Try Again</a>''\<close>

definition no_code_page :: string where
  \<open>no_code_page =
     ''<h2>Authentication Failed</h2><p>No authorization code provided</p><a href="/">Try Again</a>''\<close>

definition database_error_page :: "string \<Rightarrow> string \<Rightarrow> string" where
  \<open>database_error_page message_s hint_s =
     ''<h2>Database Error</h2><p>Failed to store user: '' @ message_s @ ''</p>''
     @ ''<p><strong>Hint:</strong> '' @ hint_s @ ''</p><a href="/">Try Again</a>''\<close>

definition auth_failed_page :: "string \<Rightarrow> string" where
  \<open>auth_failed_page message_s =
     ''<h2>Authentication Failed</h2><p>Error: '' @ message_s @ ''</p><a href="/">Try Again</a>''\<close>

definition logged_out_page :: string where
  \<open>logged_out_page =
     ''<!DOCTYPE html><html><head><title>CVrio - Logged Out</title></head><body><div class="container">''
     @ ''<h2>Successfully Logged Out</h2><p>Thank you for using CVrio!</p>''
     @ ''<a href="/" class="btn">Sign In Again</a></div></body></html>''\<close>

definition something_wrong_page :: string where
  \<open>something_wrong_page =
     ''<h2>Something went wrong!</h2><p>Please try again later.</p><a href="/">Go Home</a>''\<close>

definition not_found_page :: string where
  \<open>not_found_page =
     ''<h2>Page Not Found</h2><p>The page you'' @ [CHR 0x27] @ ''re looking for doesn'' @ [CHR 0x27]
     @ ''t exist.</p><a href="/">Go Home</a>''\<close>

section \<open>The handlers\<close>

text \<open>
  Each handler takes the state and returns the outcome with the state after it, also
  where it leaves the state alone. Console output of the handlers is not modelled.
  A synchronous handler that throws is answered by the error-handling middleware.
\<close>

definition error_middleware :: "js_error \<Rightarrow> response" where
  "error_middleware err = Send 500 something_wrong_page"

text \<open>\<^verbatim>\<open>app.get('/')\<close>: the welcome page renders name, picture and email, in this order.\<close>

definition home :: "app_state \<Rightarrow> outcome \<times> app_state" where
  "home st =
     (case currentUser st of
        Some u \<Rightarrow>
          (case js_String (name u) of
             Inl err \<Rightarrow> (Responded (error_middleware err), st)
           | Inr name_s \<Rightarrow>
               (case js_String (picture u) of
                  Inl err \<Rightarrow> (Responded (error_middleware err), st)
                | Inr picture_s \<Rightarrow>
                    (case js_String (email u) of
                       Inl err \<Rightarrow> (Responded (error_middleware err), st)
                     | Inr email_s \<Rightarrow>
                         (Responded (Send 200 (welcome_page name_s picture_s email_s)), st))))
      | None \<Rightarrow> (Responded (Send 200 login_page), st))"

text \<open>\<^verbatim>\<open>app.get('/auth/google')\<close>: the scope is the constant's
  \<^verbatim>\<open>encodeURIComponent\<close>.\<close>

definition oauth_scope :: string where
  "oauth_scope = ''https%3A%2F%2Fwww.googleapis.com%2Fauth%2Fuserinfo.profile''
                 @ ''%20https%3A%2F%2Fwww.googleapis.com%2Fauth%2Fuserinfo.email''"

definition auth_google :: "env_config \<Rightarrow> app_state \<Rightarrow> outcome \<times> app_state" where
  "auth_google cfg st =
     (case js_String (env_value (clientId (oauth_google cfg))) of
        Inl err \<Rightarrow> (Responded (error_middleware err), st)
      | Inr client_id_s \<Rightarrow>
          (Responded (RedirectTo
             (''https://accounts.google.com/o/oauth2/v2/auth?client_id='' @ client_id_s
              @ ''&redirect_uri='' @ redirectUri (oauth_google cfg)
              @ ''&response_type=code&scope='' @ oauth_scope @ ''&access_type=offline'')), st))"

text \<open>
  \<^verbatim>\<open>app.get('/auth/google/callback')\<close>, the body of its \<^verbatim>\<open>try\<close> block: the result is
  the exception thrown, or the response with the state after it, and in both cases the
  outbound calls made so far.
\<close>

definition callback_try ::
  "env_config \<Rightarrow> world \<Rightarrow> jsval \<Rightarrow> app_state \<Rightarrow> (js_error + response \<times> app_state) \<times> outbound list" where
  "callback_try cfg w code st =
     (let params = \<lparr> tp_code = code,
                      tp_client_id = clientId (oauth_google cfg),
                      tp_client_secret = clientSecret (oauth_google cfg),
                      tp_redirect_uri = redirectUri (oauth_google cfg),
                      tp_grant_type = ''authorization_code'' \<rparr>
      in case axios_settle (token_endpoint w params) of
           Inl err \<Rightarrow> (Inl err, [TokenExchange params])
         | Inr token_data \<Rightarrow>
             (case js_destructure token_data ''access_token'' ''tokenResponse.data'' of
                Inl err \<Rightarrow> (Inl err, [TokenExchange params])
              | Inr access_token \<Rightarrow>
                  (case js_String access_token of
                     Inl err \<Rightarrow> (Inl err, [TokenExchange params])
                   | Inr token_s \<Rightarrow>
                       (let authorization = ''Bearer '' @ token_s
                        in case axios_settle (userinfo_endpoint w authorization) of
                             Inl err \<Rightarrow>
                               (Inl err, [TokenExchange params, UserinfoFetch authorization])
                           | Inr user \<Rightarrow>
                               (case js_get user ''email'' of
                                  Inl err \<Rightarrow>
                                    (Inl err, [TokenExchange params, UserinfoFetch authorization])
                                | Inr user_email \<Rightarrow>
                                    (let row = \<lparr> row_email = user_email,
                                                   row_name = js_prop user ''name'',
                                                   row_picture = js_prop user ''picture'',
                                                   row_google_id = js_prop user ''id'',
                                                   row_last_login = now w \<rparr>;
                                         calls = [TokenExchange params,
                                                  UserinfoFetch authorization, StoreUpsert row]
                                     in case users_upsert w row of
                                          UpsertThrew err \<Rightarrow> (Inl err, calls)
                                        | UpsertResult (Some supabaseError) \<Rightarrow>
                                            (Inr (Send 500
                                                    (database_error_page (se_message supabaseError)
                                                       (or_default (se_hint supabaseError)
                                                          ''Check your Supabase table configuration'')),
                                                  st), calls)
                                        | UpsertResult None \<Rightarrow>
                                            (Inr (RedirectTo ''/'',
                                                  st \<lparr> currentUser :=
                                                         Some \<lparr> user_id = js_prop user ''id'',
                                                                 email = user_email,
                                                                 name = js_prop user ''name'',
                                                                 picture = js_prop user ''picture'' \<rparr> \<rparr>),
                                             calls)))))))"

text \<open>
  The handler: \<^verbatim>\<open>code\<close> and \<^verbatim>\<open>error\<close> are read from the query (\<^verbatim>\<open>undefined\<close> when
  absent); the \<^verbatim>\<open>error\<close> guard comes first, then the \<^verbatim>\<open>code\<close> guard, then the
  \<^verbatim>\<open>try\<close> block, whose exceptions the \<^verbatim>\<open>catch\<close> block turns into a 500 page with the
  exception's message. The result is the outcome, the state after the request and the
  outbound calls made.
\<close>

definition callback ::
  "env_config \<Rightarrow> world \<Rightarrow> (string \<times> jsval) list \<Rightarrow> app_state \<Rightarrow> outcome \<times> app_state \<times> outbound list" where
  "callback cfg w query st =
     (let code = js_prop (Obj query) ''code'';
          error = js_prop (Obj query) ''error''
      in if truthy error
         then (case js_String error of
                 Inl err \<Rightarrow> (Rejected err, st, [])
               | Inr error_s \<Rightarrow> (Responded (Send 400 (oauth_error_page error_s)), st, []))
         else if \<not> truthy code
         then (Responded (Send 400 no_code_page), st, [])
         else (case callback_try cfg w code st of
                 (Inr (res, st'), calls) \<Rightarrow> (Responded res, st', calls)
               | (Inl err, calls) \<Rightarrow>
                   (Responded (Send 500 (auth_failed_page (message err))), st, calls)))"

text \<open>\<^verbatim>\<open>app.get('/logout')\<close>.\<close>

definition logout :: "app_state \<Rightarrow> outcome \<times> app_state" where
  "logout st =
     (let st' = (if currentUser st \<noteq> None then st \<lparr> currentUser := None \<rparr> else st)
      in (Responded (Send 200 logged_out_page), st'))"

text \<open>\<^verbatim>\<open>app.get('/profile')\<close>: the session's user is sent as the object it is.\<close>

definition user_object :: "authenticated_user \<Rightarrow> jsval" where
  "user_object u =
     Obj [(''id'', user_id u), (''email'', email u), (''name'', name u), (''picture'', picture u)]"

definition profile :: "world \<Rightarrow> app_state \<Rightarrow> outcome \<times> app_state" where
  "profile w st =
     (case currentUser st of
        None \<Rightarrow>
          (Responded (SendJson 401 (Obj [(''error'', Str ''Unauthorized''),
                                         (''message'', Str ''Please log in first''),
                                         (''loginUrl'', Str ''/auth/google'')])), st)
      | Some u \<Rightarrow>
          (Responded (SendJson 200 (Obj [(''message'', Str ''This is a protected route''),
                                         (''user'', user_object u),
                                         (''timestamp'', Str (now w))])), st))"

text \<open>\<^verbatim>\<open>app.get('/health')\<close>.\<close>

definition health :: "env_config \<Rightarrow> world \<Rightarrow> app_state \<Rightarrow> outcome \<times> app_state" where
  "health cfg w st =
     (Responded (SendJson 200
        (Obj [(''status'', Str ''OK''),
              (''timestamp'', Str (now w)),
              (''environment'', Str (nodeEnv (server cfg))),
              (''authenticated'', Bool (currentUser st \<noteq> None)),
              (''config'', Obj [(''port'', port (server cfg)),
                                (''hasDatabase'', Bool (truthy (env_value (db_url (database cfg))))),
                                (''hasGoogleOAuth'',
                                   Bool (truthy (env_value (clientId (oauth_google cfg)))))])])),
      st)"

text \<open>The handler for unmatched requests.\<close>

definition not_found :: "app_state \<Rightarrow> outcome \<times> app_state" where
  "not_found st = (Responded (Send 404 not_found_page), st)"

section \<open>The router\<close>

text \<open>
  A request is the route its method and path select and its parsed query. The router
  runs the route's handler; only the callback makes outbound calls.
\<close>

datatype route = Home | AuthGoogle | Callback | Logout | Profile | Health | Unmatched

record request =
  route :: route
  query :: "(string \<times> jsval) list"

definition handle ::
  "env_config \<Rightarrow> world \<Rightarrow> request \<Rightarrow> app_state \<Rightarrow> outcome \<times> app_state \<times> outbound list" where
  "handle cfg w req st =
     (case route req of
        Home \<Rightarrow> (let (out, st') = home st in (out, st', []))
      | AuthGoogle \<Rightarrow> (let (out, st') = auth_google cfg st in (out, st', []))
      | Callback \<Rightarrow> callback cfg w (query req) st
      | Logout \<Rightarrow> (let (out, st') = logout st in (out, st', []))
      | Profile \<Rightarrow> (let (out, st') = profile w st in (out, st', []))
      | Health \<Rightarrow> (let (out, st') = health cfg w st in (out, st', []))
      | Unmatched \<Rightarrow> (let (out, st') = not_found st in (out, st', [])))"

section \<open>A scenario\<close>

text \<open>
  The environment, the provider and the store of a sign-in that succeeds: the token
  endpoint returns the access token \<^verbatim>\<open>t1\<close>, the userinfo endpoint answers that token
  with a profile, the store accepts the row.
\<close>

definition demo_env :: process_env where
  "demo_env =
     map_of [(''SUPABASE_URL'', ''https://project.supabase.co''),
             (''SUPABASE_ANON_KEY'', ''anon-key''),
             (''GOOGLE_CLIENT_ID'', ''client-id''),
             (''GOOGLE_CLIENT_SECRET'', ''client-secret'')]"

definition demo_config :: env_config where
  "demo_config = envConfig demo_env"

definition demo_profile :: jsval where
  "demo_profile =
     Obj [(''id'', Str ''1''), (''email'', Str ''a@b.com''), (''name'', Str ''A''),
          (''picture'', Str ''p'')]"

definition demo_world :: world where
  "demo_world =
     \<lparr> token_endpoint = (\<lambda>params. HttpResponse 200 (Obj [(''access_token'', Str ''t1'')])),
       userinfo_endpoint =
         (\<lambda>authorization. if authorization = ''Bearer t1'' then HttpResponse 200 demo_profile
                           else HttpResponse 401 Null),
       users_upsert = (\<lambda>row. UpsertResult None),
       now = ''2024-01-01T00:00:00.000Z'' \<rparr>"

definition demo_user :: authenticated_user where
  "demo_user = \<lparr> user_id = Str ''1'', email = Str ''a@b.com'', name = Str ''A'', picture = Str ''p'' \<rparr>"

definition logged_out :: app_state where
  "logged_out = \<lparr> currentUser = None \<rparr>"

definition logged_in :: app_state where
  "logged_in = \<lparr> currentUser = Some demo_user \<rparr>"

text \<open>A store that rejects the row, with a message and a hint.\<close>

definition demo_store_error :: store_error where
  "demo_store_error =
     \<lparr> se_message = ''relation users does not exist'', se_details = None,
       se_hint = Some ''create the table'', se_code = ''42P01'' \<rparr>"

definition failing_store_world :: world where
  "failing_store_world = demo_world \<lparr> users_upsert := (\<lambda>row. UpsertResult (Some demo_store_error)) \<rparr>"

text \<open>A provider whose token endpoint refuses the code, and one that cannot be reached
  for the profile.\<close>

definition refusing_token_world :: world where
  "refusing_token_world =
     demo_world \<lparr> token_endpoint :=
                    (\<lambda>params. HttpResponse 400 (Obj [(''error'', Str ''invalid_grant'')])) \<rparr>"

definition unreachable_userinfo_world :: world where
  "unreachable_userinfo_world =
     demo_world \<lparr> userinfo_endpoint := (\<lambda>authorization. TransportFailure ''connect ETIMEDOUT'') \<rparr>"

text \<open>The status of an outcome, when there is a response.\<close>

fun outcome_status :: "outcome \<Rightarrow> nat option" where
  "outcome_status (Responded res) = Some (status res)"
| "outcome_status (Rejected err) = None"

section \<open>Notions used in the statements\<close>

text \<open>
  A variable or configuration value is set when it is a non-empty string; the server
  itself prints \<^verbatim>\<open>NOT SET\<close> and reports as missing a variable that is \<^verbatim>\<open>undefined\<close>
  or empty.
\<close>

definition is_set :: "string option \<Rightarrow> bool" where
  "is_set v = (case v of None \<Rightarrow> False | Some s \<Rightarrow> s \<noteq> [])"

definition required_vars :: "string list" where
  "required_vars =
     [''SUPABASE_URL'', ''SUPABASE_ANON_KEY'', ''GOOGLE_CLIENT_ID'', ''GOOGLE_CLIENT_SECRET'']"

text \<open>An outbound HTTP request fails when it fails in transport or its status is not
  2xx; the text of the failure is what the HTTP client puts into the error's message.\<close>

definition http_failed :: "http_outcome \<Rightarrow> bool" where
  "http_failed r = (case r of TransportFailure m \<Rightarrow> True | HttpResponse s d \<Rightarrow> s < 200 \<or> 300 \<le> s)"

definition failure_text :: "http_outcome \<Rightarrow> string" where
  "failure_text r =
     (case r of
        TransportFailure m \<Rightarrow> m
      | HttpResponse s d \<Rightarrow> ''Request failed with status code '' @ show_nat s)"

text \<open>The token request of a callback, and the row and the session entry made from a
  fetched profile.\<close>

definition token_request :: "env_config \<Rightarrow> jsval \<Rightarrow> token_params" where
  "token_request cfg code =
     \<lparr> tp_code = code, tp_client_id = clientId (oauth_google cfg),
       tp_client_secret = clientSecret (oauth_google cfg),
       tp_redirect_uri = redirectUri (oauth_google cfg),
       tp_grant_type = ''authorization_code'' \<rparr>"

definition row_of :: "jsval \<Rightarrow> string \<Rightarrow> user_row" where
  "row_of user t =
     \<lparr> row_email = js_prop user ''email'', row_name = js_prop user ''name'',
       row_picture = js_prop user ''picture'', row_google_id = js_prop user ''id'',
       row_last_login = t \<rparr>"

definition session_of :: "jsval \<Rightarrow> authenticated_user" where
  "session_of user =
     \<lparr> user_id = js_prop user ''id'', email = js_prop user ''email'',
       name = js_prop user ''name'', picture = js_prop user ''picture'' \<rparr>"

text \<open>The calls of the scenario's sign-in with the code \<^verbatim>\<open>abc\<close>.\<close>

definition demo_params :: token_params where
  "demo_params =
     \<lparr> tp_code = Str ''abc'', tp_client_id = Some ''client-id'',
       tp_client_secret = Some ''client-secret'',
       tp_redirect_uri = ''http://localhost:3000/auth/google/callback'',
       tp_grant_type = ''authorization_code'' \<rparr>"

definition demo_row :: user_row where
  "demo_row =
     \<lparr> row_email = Str ''a@b.com'', row_name = Str ''A'', row_picture = Str ''p'',
       row_google_id = Str ''1'', row_last_login = ''2024-01-01T00:00:00.000Z'' \<rparr>"

definition demo_calls :: "outbound list" where
  "demo_calls = [TokenExchange demo_params, UserinfoFetch ''Bearer t1'', StoreUpsert demo_row]"

section \<open>The shape of a callback run\<close>

text \<open>
  Every run of the \<^verbatim>\<open>try\<close> block is one of seven: the token request is rejected; the
  token response is unreadable (no data to destructure, or an access token that does
  not convert to a string); the profile request is rejected; the profile is
  \<^verbatim>\<open>null\<close>; the store client throws; the store reports an error; the store accepts
  the row and the session is committed.
\<close>

lemma js_get_Inr: "js_get v k = Inr x \<Longrightarrow> \<not> nullish v \<and> x = js_prop v k"
  by (simp add: js_get_def split: if_splits)

lemma callback_try_cases [consumes 1, case_names token_rejected token_unreadable
    userinfo_rejected profile_unreadable store_threw store_error committed]:
  assumes run: "callback_try cfg w code st = (r, calls)"
  obtains
    err where "axios_settle (token_endpoint w (token_request cfg code)) = Inl err"
      and "r = Inl err" and "calls = [TokenExchange (token_request cfg code)]"
  | token_data err where "axios_settle (token_endpoint w (token_request cfg code)) = Inr token_data"
      and "js_destructure token_data ''access_token'' ''tokenResponse.data'' = Inl err
           \<or> (\<exists>t. js_destructure token_data ''access_token'' ''tokenResponse.data'' = Inr t
                     \<and> js_String t = Inl err)"
      and "r = Inl err" and "calls = [TokenExchange (token_request cfg code)]"
  | token_data auth err where "axios_settle (token_endpoint w (token_request cfg code)) = Inr token_data"
      and "axios_settle (userinfo_endpoint w auth) = Inl err"
      and "r = Inl err"
      and "calls = [TokenExchange (token_request cfg code), UserinfoFetch auth]"
  | token_data auth user err where "axios_settle (token_endpoint w (token_request cfg code)) = Inr token_data"
      and "axios_settle (userinfo_endpoint w auth) = Inr user"
      and "js_get user ''email'' = Inl err"
      and "r = Inl err"
      and "calls = [TokenExchange (token_request cfg code), UserinfoFetch auth]"
  | token_data auth user err where "axios_settle (token_endpoint w (token_request cfg code)) = Inr token_data"
      and "axios_settle (userinfo_endpoint w auth) = Inr user"
      and "users_upsert w (row_of user (now w)) = UpsertThrew err"
      and "r = Inl err"
      and "calls = [TokenExchange (token_request cfg code), UserinfoFetch auth,
                    StoreUpsert (row_of user (now w))]"
  | token_data auth user e where "axios_settle (token_endpoint w (token_request cfg code)) = Inr token_data"
      and "axios_settle (userinfo_endpoint w auth) = Inr user"
      and "users_upsert w (row_of user (now w)) = UpsertResult (Some e)"
      and "r = Inr (Send 500 (database_error_page (se_message e)
                     (or_default (se_hint e) ''Check your Supabase table configuration'')), st)"
      and "calls = [TokenExchange (token_request cfg code), UserinfoFetch auth,
                    StoreUpsert (row_of user (now w))]"
  | token_data auth user where "axios_settle (token_endpoint w (token_request cfg code)) = Inr token_data"
      and "axios_settle (userinfo_endpoint w auth) = Inr user"
      and "users_upsert w (row_of user (now w)) = UpsertResult None"
      and "r = Inr (RedirectTo ''/'', st \<lparr> currentUser := Some (session_of user) \<rparr>)"
      and "calls = [TokenExchange (token_request cfg code), UserinfoFetch auth,
                    StoreUpsert (row_of user (now w))]"
proof -
  let ?p = "token_request cfg code"
  note defs = callback_try_def token_request_def [symmetric] Let_def
  show thesis
  proof (cases "axios_settle (token_endpoint w ?p)")
    case (Inl err)
    with run show thesis by (intro that(1) [of err]) (simp_all add: defs)
  next
    case token: (Inr token_data)
    show thesis
    proof (cases "js_destructure token_data ''access_token'' ''tokenResponse.data''")
      case (Inl err)
      with run token show thesis by (intro that(2) [of token_data err]) (simp_all add: defs)
    next
      case access: (Inr t)
      show thesis
      proof (cases "js_String t")
        case (Inl err)
        with run token access show thesis
          by (intro that(2) [of token_data err]) (simp_all add: defs)
      next
        case header: (Inr token_s)
        let ?a = "''Bearer '' @ token_s"
        show thesis
        proof (cases "axios_settle (userinfo_endpoint w ?a)")
          case (Inl err)
          with run token access header show thesis
            by (intro that(3) [of token_data ?a err]) (simp_all add: defs)
        next
          case fetched: (Inr user)
          show thesis
          proof (cases "js_get user ''email''")
            case (Inl err)
            with run token access header fetched show thesis
              by (intro that(4) [of token_data ?a user err]) (simp_all add: defs)
          next
            case mail: (Inr user_email)
            then have mail_eq: "user_email = js_prop user ''email''"
              by (simp add: js_get_Inr)
            note facts = run token access header fetched mail [unfolded mail_eq]
            note defs' = defs row_of_def session_of_def
            show thesis
            proof (cases "users_upsert w (row_of user (now w))")
              case (UpsertThrew err)
              with facts show thesis
                by (intro that(5) [of token_data ?a user err]) (simp_all add: defs')
            next
              case (UpsertResult eo)
              show thesis
              proof (cases eo)
                case None
                with facts UpsertResult show thesis
                  by (intro that(7) [of token_data ?a user]) (simp_all add: defs')
              next
                case (Some e)
                with facts UpsertResult show thesis
                  by (intro that(6) [of token_data ?a user e]) (simp_all add: defs')
              qed
            qed
          qed
        qed
      qed
    qed
  qed
qed

text \<open>Every run of the handler is one of five: the \<^verbatim>\<open>error\<close> guard fires and the value
  does not convert to a string; the \<^verbatim>\<open>error\<close> guard answers; the \<^verbatim>\<open>code\<close> guard
  answers; the \<^verbatim>\<open>try\<close> block throws and the \<^verbatim>\<open>catch\<close> block answers; the
  \<^verbatim>\<open>try\<close> block answers.\<close>

lemma callback_cases [consumes 1, case_names error_unconvertible error_page no_code caught finished]:
  assumes run: "callback cfg w q st = (out, st', calls)"
  obtains
    err where "truthy (js_prop (Obj q) ''error'')"
      and "js_String (js_prop (Obj q) ''error'') = Inl err"
      and "out = Rejected err" and "st' = st" and "calls = []"
  | error_s where "truthy (js_prop (Obj q) ''error'')"
      and "js_String (js_prop (Obj q) ''error'') = Inr error_s"
      and "out = Responded (Send 400 (oauth_error_page error_s))" and "st' = st" and "calls = []"
  | "\<not> truthy (js_prop (Obj q) ''error'')" and "\<not> truthy (js_prop (Obj q) ''code'')"
      and "out = Responded (Send 400 no_code_page)" and "st' = st" and "calls = []"
  | err where "\<not> truthy (js_prop (Obj q) ''error'')" and "truthy (js_prop (Obj q) ''code'')"
      and "callback_try cfg w (js_prop (Obj q) ''code'') st = (Inl err, calls)"
      and "out = Responded (Send 500 (auth_failed_page (message err)))" and "st' = st"
  | res where "\<not> truthy (js_prop (Obj q) ''error'')" and "truthy (js_prop (Obj q) ''code'')"
      and "callback_try cfg w (js_prop (Obj q) ''code'') st = (Inr (res, st'), calls)"
      and "out = Responded res"
proof -
  let ?error = "js_prop (Obj q) ''error''" and ?code = "js_prop (Obj q) ''code''"
  show thesis
  proof (cases "truthy ?error")
    case True
    show thesis
    proof (cases "js_String ?error")
      case (Inl err)
      with run True show thesis by (intro that(1) [of err]) (simp_all add: callback_def)
    next
      case (Inr error_s)
      with run True show thesis by (intro that(2) [of error_s]) (simp_all add: callback_def)
    qed
  next
    case no_error: False
    show thesis
    proof (cases "truthy ?code")
      case False
      with run no_error show thesis by (intro that(3)) (simp_all add: callback_def)
    next
      case True
      obtain r calls' where tried: "callback_try cfg w ?code st = (r, calls')"
        by (cases "callback_try cfg w ?code st")
      show thesis
      proof (cases r)
        case (Inl err)
        with run no_error True tried show thesis
          by (intro that(4) [of err]) (simp_all add: callback_def)
      next
        case (Inr pair)
        with run no_error True tried show thesis
          by (intro that(5) [of "fst pair"]) (simp_all add: callback_def split: prod.splits)
      qed
    qed
  qed
qed

section \<open>Facts about the helpers\<close>

lemma truthy_env_value: "truthy (env_value v) = is_set v"
  by (simp add: env_value_def is_set_def split: option.splits)

lemma database_error_page_sublist:
  "sublist m (database_error_page m h)" "sublist h (database_error_page m h)"
  unfolding database_error_page_def sublist_def
  by (metis append.assoc)+

lemma auth_failed_page_sublist: "sublist m (auth_failed_page m)"
  unfolding auth_failed_page_def by (rule sublist_appendI)

lemma oauth_error_page_sublist: "sublist s (oauth_error_page s)"
  unfolding oauth_error_page_def by (rule sublist_appendI)

lemma or_default_Some: "or_default (Some h) d = (if h = [] then d else h)"
  by (simp add: or_default_def)

lemma axios_settle_Inr: "axios_settle r = Inr d \<Longrightarrow> \<exists>s. r = HttpResponse s d \<and> \<not> http_failed r"
  by (auto simp: axios_settle_def http_failed_def split: http_outcome.splits if_splits)

lemma axios_settle_Inl: "axios_settle r = Inl err \<Longrightarrow> message err = failure_text r"
  by (auto simp: axios_settle_def failure_text_def split: http_outcome.splits if_splits)

section \<open>The scenario, evaluated\<close>

lemmas scenario_defs =
  demo_config_def demo_env_def envConfig_def or_default_def env_value_def
  demo_world_def demo_profile_def demo_user_def logged_in_def logged_out_def
  demo_params_def demo_row_def demo_calls_def demo_store_error_def
  failing_store_world_def refusing_token_world_def unreachable_userinfo_world_def

lemmas run_defs =
  callback_def callback_try_def axios_settle_def js_get_def js_destructure_def nullish_def Let_def

lemma demo_sign_in:
  "callback demo_config demo_world [(''code'', Str ''abc'')] logged_out
     = (Responded (RedirectTo ''/''), logged_in, demo_calls)"
  by (simp add: run_defs scenario_defs)

lemma demo_store_failure:
  "callback demo_config failing_store_world [(''code'', Str ''abc'')] logged_in
     = (Responded (Send 500 (database_error_page ''relation users does not exist''
                               ''create the table'')), logged_in, demo_calls)"
  by (simp add: run_defs scenario_defs)

lemma demo_token_refused:
  "callback demo_config refusing_token_world [(''code'', Str ''abc'')] logged_out
     = (Responded (Send 500 (auth_failed_page ''Request failed with status code 400'')),
        logged_out, [TokenExchange demo_params])"
  by (simp add: run_defs scenario_defs show_nat.simps digit_char_def)

lemma demo_userinfo_unreachable:
  "callback demo_config unreachable_userinfo_world [(''code'', Str ''abc'')] logged_in
     = (Responded (Send 500 (auth_failed_page ''connect ETIMEDOUT'')),
        logged_in, [TokenExchange demo_params, UserinfoFetch ''Bearer t1''])"
  by (simp add: run_defs scenario_defs)

text \<open>An \<^verbatim>\<open>error\<close> parameter that is an object with a property \<^verbatim>\<open>toString\<close> of its
  own (as the extended query parser builds from \<^verbatim>\<open>?error[toString]=x\<close>) makes the
  handler throw while it renders the page, outside the \<^verbatim>\<open>try\<close> block.\<close>

lemma callback_unconvertible_error:
  "callback cfg w [(''error'', Obj [(''toString'', Str ''x'')])] st
     = (Rejected (TypeError ''Cannot convert object to primitive value''), st, [])"
  by (simp add: callback_def)

section \<open>The claims\<close>

subsection \<open>C1: a store failure\<close>

text \<open>
  Claim C1. In the callback handler, if the store upsert reports an error, the response
  is a 500 response whose body contains the store's error message and, if present, the
  store's hint, and the session slot is left as it was: whenever the upsert was called
  and returned an error \<open>e\<close>, the page sent is the database error page of \<open>e\<close>'s message
  and of its hint (or the default hint), both texts occur in it, and the state after the
  request is the state before it.
\<close>

theorem callback_store_error:
  assumes run: "callback cfg w q st = (out, st', calls)"
    and called: "StoreUpsert row \<in> set calls"
    and store: "users_upsert w row = UpsertResult (Some e)"
  shows "\<exists>html. out = Responded (Send 500 html) \<and>
           html = database_error_page (se_message e)
                    (or_default (se_hint e) ''Check your Supabase table configuration'') \<and>
           sublist (se_message e) html \<and>
           (\<forall>h. se_hint e = Some h \<longrightarrow> sublist h html) \<and>
           st' = st"
proof -
  let ?hint = "or_default (se_hint e) ''Check your Supabase table configuration''"
  have res: "out = Responded (Send 500 (database_error_page (se_message e) ?hint)) \<and> st' = st"
    using run
  proof (cases rule: callback_cases)
    case (caught err)
    from caught(3) called store show ?thesis
      by (cases rule: callback_try_cases) auto
  next
    case (finished res)
    from finished(3) called store show ?thesis
      by (cases rule: callback_try_cases) (auto simp: finished(4))
  qed (use called in simp_all)
  have "sublist h (database_error_page (se_message e) ?hint)" if "se_hint e = Some h" for h
    using that database_error_page_sublist(2) [of ?hint "se_message e"]
    by (cases "h = []") (simp_all add: or_default_Some)
  with res show ?thesis
    by (simp add: database_error_page_sublist(1))
qed

text \<open>A store that rejects the row with a message and a hint, a user being signed in: the page carries both texts and the user stays signed in.\<close>

theorem callback_store_error_witness:
  "callback demo_config failing_store_world [(''code'', Str ''abc'')] logged_in
     = (Responded (Send 500 (database_error_page ''relation users does not exist''
                               ''create the table'')), logged_in, demo_calls) \<and>
   StoreUpsert demo_row \<in> set demo_calls \<and>
   users_upsert failing_store_world demo_row = UpsertResult (Some demo_store_error) \<and>
   sublist ''relation users does not exist''
     (database_error_page ''relation users does not exist'' ''create the table'') \<and>
   sublist ''create the table''
     (database_error_page ''relation users does not exist'' ''create the table'')"
proof -
  have called: "StoreUpsert demo_row \<in> set demo_calls"
    by (simp add: demo_calls_def)
  have store: "users_upsert failing_store_world demo_row = UpsertResult (Some demo_store_error)"
    by (simp add: failing_store_world_def)
  have hint: "se_hint demo_store_error = Some ''create the table''"
    and msg: "se_message demo_store_error = ''relation users does not exist''"
    by (simp_all add: demo_store_error_def)
  from callback_store_error [OF demo_store_failure called store] hint msg
  have "sublist ''relation users does not exist''
          (database_error_page ''relation users does not exist'' ''create the table'')"
    and "sublist ''create the table''
          (database_error_page ''relation users does not exist'' ''create the table'')"
    by auto
  with demo_store_failure called store show ?thesis by simp
qed

subsection \<open>C2: the session commit\<close>

text \<open>
  Claim C2. The session slot is replaced with the new user \<^verbatim>\<open>{id, email, name, picture}\<close>
  only after the store upsert succeeds, and the handler then redirects to the home page;
  after such a callback, \<^verbatim>\<open>/profile\<close> returns 200 with the values fetched from the
  userinfo endpoint. First part: a changed state or a redirect implies that the upsert
  was called and returned no error. Second part: when the upsert was called and returned
  no error, the response is the redirect to \<^verbatim>\<open>/\<close>, the slot holds the four properties
  of the body the userinfo endpoint returned, and \<^verbatim>\<open>/profile\<close> then answers 200 with
  exactly these four values as \<^verbatim>\<open>user\<close>.
\<close>

theorem callback_commit:
  assumes run: "callback cfg w q st = (out, st', calls)"
  shows "(st' \<noteq> st \<or> (\<exists>url. out = Responded (RedirectTo url)) \<longrightarrow>
            (\<exists>row. StoreUpsert row \<in> set calls \<and> users_upsert w row = UpsertResult None))
       \<and> (\<forall>row. StoreUpsert row \<in> set calls \<and> users_upsert w row = UpsertResult None \<longrightarrow>
            out = Responded (RedirectTo ''/'') \<and>
            (\<exists>auth code user.
               UserinfoFetch auth \<in> set calls \<and>
               userinfo_endpoint w auth = HttpResponse code user \<and>
               st' = st \<lparr> currentUser :=
                          Some \<lparr> user_id = js_prop user ''id'', email = js_prop user ''email'',
                                  name = js_prop user ''name'', picture = js_prop user ''picture'' \<rparr> \<rparr> \<and>
               (\<forall>w'. profile w' st' =
                  (Responded (SendJson 200
                     (Obj [(''message'', Str ''This is a protected route''),
                           (''user'', Obj [(''id'', js_prop user ''id''),
                                           (''email'', js_prop user ''email''),
                                           (''name'', js_prop user ''name''),
                                           (''picture'', js_prop user ''picture'')]),
                           (''timestamp'', Str (now w'))])), st'))))"
  using run
proof (cases rule: callback_cases)
  case (caught err)
  from caught(3) show ?thesis
    by (cases rule: callback_try_cases) (auto simp: caught(4,5))
next
  case (finished res)
  from finished(3) show ?thesis
    by (cases rule: callback_try_cases)
       (auto simp: finished(4) session_of_def profile_def user_object_def dest: axios_settle_Inr)
qed simp_all

text \<open>The scenario: the sign-in is stored and committed, and the profile route returns the fetched profile.\<close>

theorem callback_commit_witness:
  "callback demo_config demo_world [(''code'', Str ''abc'')] logged_out
     = (Responded (RedirectTo ''/''), logged_in, demo_calls) \<and>
   logged_in \<noteq> logged_out \<and>
   StoreUpsert demo_row \<in> set demo_calls \<and>
   users_upsert demo_world demo_row = UpsertResult None \<and>
   userinfo_endpoint demo_world ''Bearer t1'' = HttpResponse 200 demo_profile \<and>
   profile demo_world logged_in =
     (Responded (SendJson 200
        (Obj [(''message'', Str ''This is a protected route''),
              (''user'', Obj [(''id'', Str ''1''), (''email'', Str ''a@b.com''),
                              (''name'', Str ''A''), (''picture'', Str ''p'')]),
              (''timestamp'', Str ''2024-01-01T00:00:00.000Z'')])), logged_in)"
proof -
  have changed: "logged_in \<noteq> logged_out"
    by (simp add: logged_in_def logged_out_def)
  have called: "StoreUpsert demo_row \<in> set demo_calls"
    by (simp add: demo_calls_def)
  have store: "users_upsert demo_world demo_row = UpsertResult None"
    and fetch: "userinfo_endpoint demo_world ''Bearer t1'' = HttpResponse 200 demo_profile"
    and clock: "now demo_world = ''2024-01-01T00:00:00.000Z''"
    by (simp_all add: demo_world_def)
  from callback_commit [OF demo_sign_in] called store
  obtain auth code user where
    "UserinfoFetch auth \<in> set demo_calls"
    "userinfo_endpoint demo_world auth = HttpResponse code user"
    "profile demo_world logged_in =
       (Responded (SendJson 200
          (Obj [(''message'', Str ''This is a protected route''),
                (''user'', Obj [(''id'', js_prop user ''id''), (''email'', js_prop user ''email''),
                                (''name'', js_prop user ''name''),
                                (''picture'', js_prop user ''picture'')]),
                (''timestamp'', Str (now demo_world))])), logged_in)"
    by blast
  then have "profile demo_world logged_in =
       (Responded (SendJson 200
          (Obj [(''message'', Str ''This is a protected route''),
                (''user'', Obj [(''id'', Str ''1''), (''email'', Str ''a@b.com''),
                                (''name'', Str ''A''), (''picture'', Str ''p'')]),
                (''timestamp'', Str ''2024-01-01T00:00:00.000Z'')])), logged_in)"
    using fetch clock by (auto simp: demo_calls_def demo_profile_def)
  with demo_sign_in changed called store fetch show ?thesis by simp
qed

subsection \<open>C3: the guards of the callback\<close>

text \<open>
  Claim C3, as stated: every callback request whose query carries an \<^verbatim>\<open>error\<close>
  parameter, or no \<^verbatim>\<open>code\<close> parameter, is answered 400 without any outbound call. It
  fails for an \<^verbatim>\<open>error\<close> parameter that is the empty string, which the guard
  \<^verbatim>\<open>if (error)\<close> lets pass: the request \<^verbatim>\<open>?error=&code=abc\<close> runs the whole
  sign-in, with three outbound calls and a redirect.
\<close>

theorem callback_empty_error_counterexample:
  "map_of [(''error'', Str ''''), (''code'', Str ''abc'')] ''error'' = Some (Str '''') \<and>
   callback demo_config demo_world [(''error'', Str ''''), (''code'', Str ''abc'')] logged_out
     = (Responded (RedirectTo ''/''), logged_in,
        [TokenExchange demo_params, UserinfoFetch ''Bearer t1'', StoreUpsert demo_row])"
  by (simp add: run_defs scenario_defs)

text \<open>
  Claim C3, amended: for every callback request whose \<^verbatim>\<open>error\<close> parameter is truthy
  (present and not the empty string), or whose \<^verbatim>\<open>code\<close> parameter is absent or empty,
  no outbound call is made, the session slot is left as it was, every response is a 400,
  and there is a response whenever the \<^verbatim>\<open>error\<close> value converts to a string (as
  every string and every array of strings does).
\<close>

theorem callback_guards:
  assumes run: "callback cfg w q st = (out, st', calls)"
    and guard: "truthy (js_prop (Obj q) ''error'') \<or> \<not> truthy (js_prop (Obj q) ''code'')"
  shows "calls = [] \<and> st' = st \<and>
         (\<forall>res. out = Responded res \<longrightarrow> status res = 400) \<and>
         ((\<exists>s. js_String (js_prop (Obj q) ''error'') = Inr s) \<longrightarrow> outcome_status out = Some 400)"
  using run
proof (cases rule: callback_cases)
  case (caught err)
  with guard show ?thesis by simp
next
  case (finished res)
  with guard show ?thesis by simp
qed simp_all

text \<open>A provider error, and a request with no parameter at all.\<close>

theorem callback_guards_witness:
  "truthy (js_prop (Obj [(''error'', Str ''access_denied'')]) ''error'') \<and>
   callback demo_config demo_world [(''error'', Str ''access_denied'')] logged_in
     = (Responded (Send 400 (oauth_error_page ''access_denied'')), logged_in, []) \<and>
   \<not> truthy (js_prop (Obj []) ''code'') \<and>
   callback demo_config demo_world [] logged_out
     = (Responded (Send 400 no_code_page), logged_out, [])"
proof -
  have run1: "callback demo_config demo_world [(''error'', Str ''access_denied'')] logged_in
     = (Responded (Send 400 (oauth_error_page ''access_denied'')), logged_in, [])"
    and run2: "callback demo_config demo_world [] logged_out
     = (Responded (Send 400 no_code_page), logged_out, [])"
    by (simp_all add: callback_def)
  have g1: "truthy (js_prop (Obj [(''error'', Str ''access_denied'')]) ''error'')
            \<or> \<not> truthy (js_prop (Obj [(''error'', Str ''access_denied'')]) ''code'')"
    and g2: "truthy (js_prop (Obj []) ''error'') \<or> \<not> truthy (js_prop (Obj []) ''code'')"
    by simp_all
  from callback_guards [OF run1 g1] callback_guards [OF run2 g2] run1 run2
  show ?thesis by simp
qed

subsection \<open>C4: validation of the configuration\<close>

text \<open>
  Claim C4. If any of the four required variables is absent (not set: \<^verbatim>\<open>undefined\<close> or
  empty), the process prints the names of the missing ones, in the order of the tests,
  and exits with status 1 without listening; if all four are set, the start proceeds to
  a listening server with an empty session slot.
\<close>

theorem startup_validation:
  "((\<exists>v \<in> set required_vars. \<not> is_set (env v)) \<longrightarrow>
      startup env =
        ([''Missing required environment variables. Please check your .env file.'',
          ''Required variables: '' @ join '', '' (filter (\<lambda>v. \<not> is_set (env v)) required_vars)],
         Exited 1))
   \<and> ((\<forall>v \<in> set required_vars. is_set (env v)) \<longrightarrow>
      startup env =
        ([''All required environment variables are set''],
         Listening (envConfig env) \<lparr> currentUser = None \<rparr>))"
  by (simp add: startup_def validateConfig_def envConfig_def required_vars_def truthy_env_value
      Let_def)

text \<open>The scenario's environment, and the same with the database URL removed and the client id empty.\<close>

theorem startup_validation_witness:
  "is_set (demo_env ''SUPABASE_URL'') \<and> is_set (demo_env ''SUPABASE_ANON_KEY'') \<and>
   is_set (demo_env ''GOOGLE_CLIENT_ID'') \<and> is_set (demo_env ''GOOGLE_CLIENT_SECRET'') \<and>
   startup demo_env =
     ([''All required environment variables are set''], Listening demo_config logged_out) \<and>
   \<not> is_set ((demo_env(''GOOGLE_CLIENT_ID'' := Some '''', ''SUPABASE_URL'' := None)) ''SUPABASE_URL'') \<and>
   startup (demo_env(''GOOGLE_CLIENT_ID'' := Some '''', ''SUPABASE_URL'' := None)) =
     ([''Missing required environment variables. Please check your .env file.'',
       ''Required variables: SUPABASE_URL, GOOGLE_CLIENT_ID''], Exited 1)"
proof -
  let ?bad = "demo_env(''GOOGLE_CLIENT_ID'' := Some '''', ''SUPABASE_URL'' := None)"
  have present: "\<forall>v \<in> set required_vars. is_set (demo_env v)"
    by (simp add: required_vars_def demo_env_def is_set_def)
  have missing: "\<exists>v \<in> set required_vars. \<not> is_set (?bad v)"
    by (simp add: required_vars_def is_set_def)
  have names: "filter (\<lambda>v. \<not> is_set (?bad v)) required_vars = [''SUPABASE_URL'', ''GOOGLE_CLIENT_ID'']"
    by (simp add: required_vars_def demo_env_def is_set_def)
  from startup_validation [of demo_env] present
  have ok: "startup demo_env =
     ([''All required environment variables are set''], Listening demo_config logged_out)"
    by (simp add: demo_config_def logged_out_def)
  from startup_validation [of ?bad] missing names
  have bad: "startup ?bad =
     ([''Missing required environment variables. Please check your .env file.'',
       ''Required variables: SUPABASE_URL, GOOGLE_CLIENT_ID''], Exited 1)"
    by simp
  from ok bad present show ?thesis
    by (simp add: required_vars_def is_set_def)
qed

subsection \<open>C5: failures of the identity provider\<close>

text \<open>
  Claim C5. A transport failure or a response that is not 2xx, of the token exchange or
  of the userinfo fetch, ends the callback with a 500 page that carries the text of the
  failure, and the session slot is not modified. The call that failed is the last one
  made: nothing is retried and nothing is stored.
\<close>

theorem callback_provider_failure:
  assumes run: "callback cfg w q st = (out, st', calls)"
  shows "(\<forall>p. TokenExchange p \<in> set calls \<and> http_failed (token_endpoint w p) \<longrightarrow>
            out = Responded (Send 500 (auth_failed_page (failure_text (token_endpoint w p)))) \<and>
            sublist (failure_text (token_endpoint w p))
                    (auth_failed_page (failure_text (token_endpoint w p))) \<and>
            st' = st \<and> calls = [TokenExchange p])
       \<and> (\<forall>a. UserinfoFetch a \<in> set calls \<and> http_failed (userinfo_endpoint w a) \<longrightarrow>
            out = Responded (Send 500 (auth_failed_page (failure_text (userinfo_endpoint w a)))) \<and>
            sublist (failure_text (userinfo_endpoint w a))
                    (auth_failed_page (failure_text (userinfo_endpoint w a))) \<and>
            st' = st \<and> (\<exists>p. calls = [TokenExchange p, UserinfoFetch a]))"
  using run
proof (cases rule: callback_cases)
  case (caught err)
  from caught(3) show ?thesis
    by (cases rule: callback_try_cases)
       (auto simp: caught(4,5) auth_failed_page_sublist dest: axios_settle_Inr axios_settle_Inl)
next
  case (finished res)
  from finished(3) show ?thesis
    by (cases rule: callback_try_cases) (auto dest: axios_settle_Inr)
qed simp_all

text \<open>A token endpoint that answers 400, and a userinfo endpoint that cannot be reached.\<close>

theorem callback_provider_failure_witness:
  "callback demo_config refusing_token_world [(''code'', Str ''abc'')] logged_out
     = (Responded (Send 500 (auth_failed_page ''Request failed with status code 400'')),
        logged_out, [TokenExchange demo_params]) \<and>
   http_failed (token_endpoint refusing_token_world demo_params) \<and>
   callback demo_config unreachable_userinfo_world [(''code'', Str ''abc'')] logged_in
     = (Responded (Send 500 (auth_failed_page ''connect ETIMEDOUT'')),
        logged_in, [TokenExchange demo_params, UserinfoFetch ''Bearer t1'']) \<and>
   http_failed (userinfo_endpoint unreachable_userinfo_world ''Bearer t1'') \<and>
   sublist ''Request failed with status code 400''
     (auth_failed_page ''Request failed with status code 400'') \<and>
   sublist ''connect ETIMEDOUT'' (auth_failed_page ''connect ETIMEDOUT'')"
proof -
  have f1: "http_failed (token_endpoint refusing_token_world demo_params)"
    and t1: "failure_text (token_endpoint refusing_token_world demo_params)
               = ''Request failed with status code 400''"
    by (simp_all add: refusing_token_world_def http_failed_def failure_text_def
        show_nat.simps digit_char_def)
  have f2: "http_failed (userinfo_endpoint unreachable_userinfo_world ''Bearer t1'')"
    and t2: "failure_text (userinfo_endpoint unreachable_userinfo_world ''Bearer t1'')
               = ''connect ETIMEDOUT''"
    by (simp_all add: unreachable_userinfo_world_def http_failed_def failure_text_def)
  from callback_provider_failure [OF demo_token_refused] f1 t1
  have s1: "sublist ''Request failed with status code 400''
              (auth_failed_page ''Request failed with status code 400'')"
    by auto
  from callback_provider_failure [OF demo_userinfo_unreachable] f2 t2
  have s2: "sublist ''connect ETIMEDOUT'' (auth_failed_page ''connect ETIMEDOUT'')"
    by auto
  from demo_token_refused demo_userinfo_unreachable f1 f2 s1 s2 show ?thesis by simp
qed

subsection \<open>C6: the profile route\<close>

text \<open>
  Claim C6. For every request to \<^verbatim>\<open>/profile\<close>: with an empty session slot the response
  is 401 with the JSON body \<^verbatim>\<open>{error, message, loginUrl}\<close>, the login URL being
  \<^verbatim>\<open>/auth/google\<close>; with a user in the slot it is 200 with the JSON body
  \<^verbatim>\<open>{message, user, timestamp}\<close>, whose \<^verbatim>\<open>message\<close> is the route's fixed text, whose
  \<^verbatim>\<open>user\<close> is the session's user with its four fields and whose \<^verbatim>\<open>timestamp\<close> is the
  clock's reading. Both bodies are stated in full; no outbound call is made and the
  state is left as it was.
\<close>

theorem profile_response:
  assumes "route req = Profile"
  shows "(currentUser st = None \<longrightarrow>
            handle cfg w req st =
              (Responded (SendJson 401 (Obj [(''error'', Str ''Unauthorized''),
                                             (''message'', Str ''Please log in first''),
                                             (''loginUrl'', Str ''/auth/google'')])), st, []))
       \<and> (\<forall>u. currentUser st = Some u \<longrightarrow>
            handle cfg w req st =
              (Responded (SendJson 200
                 (Obj [(''message'', Str ''This is a protected route''),
                       (''user'', Obj [(''id'', user_id u), (''email'', email u),
                                       (''name'', name u), (''picture'', picture u)]),
                       (''timestamp'', Str (now w))])), st, []))"
  using assms by (simp add: handle_def profile_def user_object_def)

text \<open>The profile route with nobody and with the scenario's user signed in.\<close>

theorem profile_response_witness:
  "route \<lparr> route = Profile, query = [] \<rparr> = Profile \<and>
   currentUser logged_out = None \<and>
   handle demo_config demo_world \<lparr> route = Profile, query = [] \<rparr> logged_out =
     (Responded (SendJson 401 (Obj [(''error'', Str ''Unauthorized''),
                                    (''message'', Str ''Please log in first''),
                                    (''loginUrl'', Str ''/auth/google'')])), logged_out, []) \<and>
   currentUser logged_in = Some demo_user \<and>
   handle demo_config demo_world \<lparr> route = Profile, query = [] \<rparr> logged_in =
     (Responded (SendJson 200
        (Obj [(''message'', Str ''This is a protected route''),
              (''user'', Obj [(''id'', Str ''1''), (''email'', Str ''a@b.com''),
                              (''name'', Str ''A''), (''picture'', Str ''p'')]),
              (''timestamp'', Str ''2024-01-01T00:00:00.000Z'')])), logged_in, [])"
proof -
  let ?req = "\<lparr> route = Profile, query = [] \<rparr>"
  have r: "route ?req = Profile" by simp
  have out: "currentUser logged_out = None" and "in": "currentUser logged_in = Some demo_user"
    by (simp_all add: logged_out_def logged_in_def)
  from profile_response [OF r, of logged_out demo_config demo_world] out
  have a: "handle demo_config demo_world ?req logged_out =
     (Responded (SendJson 401 (Obj [(''error'', Str ''Unauthorized''),
                                    (''message'', Str ''Please log in first''),
                                    (''loginUrl'', Str ''/auth/google'')])), logged_out, [])"
    by simp
  have clock: "now demo_world = ''2024-01-01T00:00:00.000Z''"
    by (simp add: demo_world_def)
  from profile_response [OF r, of logged_in demo_config demo_world] "in" clock
  have b: "handle demo_config demo_world ?req logged_in =
     (Responded (SendJson 200
        (Obj [(''message'', Str ''This is a protected route''),
              (''user'', Obj [(''id'', Str ''1''), (''email'', Str ''a@b.com''),
                              (''name'', Str ''A''), (''picture'', Str ''p'')]),
              (''timestamp'', Str ''2024-01-01T00:00:00.000Z'')])), logged_in, [])"
    by (simp add: demo_user_def)
  from r out "in" a b show ?thesis by simp
qed

subsection \<open>C7: logout, then profile\<close>

text \<open>
  Claim C7. A request to \<^verbatim>\<open>/logout\<close> leaves the session slot empty and answers 200, and
  a request to \<^verbatim>\<open>/profile\<close> right after it is answered 401, whatever the state before
  the logout was.
\<close>

theorem logout_then_profile:
  "currentUser (fst (snd (handle cfg w \<lparr> route = Logout, query = q \<rparr> st))) = None \<and>
   outcome_status (fst (handle cfg w \<lparr> route = Logout, query = q \<rparr> st)) = Some 200 \<and>
   outcome_status
     (fst (handle cfg' w' \<lparr> route = Profile, query = q' \<rparr>
             (fst (snd (handle cfg w \<lparr> route = Logout, query = q \<rparr> st))))) = Some 401"
  by (simp add: handle_def logout_def profile_def)

subsection \<open>C8: the health route\<close>

text \<open>
  Claim C8. Every request to \<^verbatim>\<open>/health\<close> is answered 200 with the JSON body
  \<^verbatim>\<open>{status, timestamp, environment, authenticated, config}\<close>, stated in full:
  \<^verbatim>\<open>status\<close> is \<^verbatim>\<open>OK\<close>, \<^verbatim>\<open>timestamp\<close> is the clock's reading, \<^verbatim>\<open>environment\<close> is the
  configured environment name, \<^verbatim>\<open>authenticated\<close> tells whether the session slot is
  occupied, and \<^verbatim>\<open>config\<close> is \<^verbatim>\<open>{port, hasDatabase, hasGoogleOAuth}\<close> with the
  configured port, \<^verbatim>\<open>hasDatabase\<close> telling whether the database URL is set and
  \<^verbatim>\<open>hasGoogleOAuth\<close> whether the client id is set (false for \<^verbatim>\<open>undefined\<close> and for the
  empty string). No outbound call is made and the state is left as it was. In a server
  that is listening, the configuration is the one built from the environment, and the
  client secret is set along with the client id and the database URL.
\<close>

theorem health_response:
  "handle cfg w \<lparr> route = Health, query = q \<rparr> st =
     (Responded (SendJson 200
        (Obj [(''status'', Str ''OK''),
              (''timestamp'', Str (now w)),
              (''environment'', Str (nodeEnv (server cfg))),
              (''authenticated'', Bool (currentUser st \<noteq> None)),
              (''config'', Obj [(''port'', port (server cfg)),
                                (''hasDatabase'', Bool (is_set (db_url (database cfg)))),
                                (''hasGoogleOAuth'', Bool (is_set (clientId (oauth_google cfg))))])])),
      st, []) \<and>
   (\<forall>env out st0. startup env = (out, Listening cfg st0) \<longrightarrow>
      cfg = envConfig env \<and>
      is_set (db_url (database cfg)) \<and> is_set (clientId (oauth_google cfg)) \<and>
      is_set (clientSecret (oauth_google cfg)))"
  by (auto simp: handle_def health_def truthy_env_value startup_def validateConfig_def Let_def
      split: if_splits)

text \<open>The health route of the scenario's server, a user being signed in, and the
  handler on a configuration with no variable set and nobody signed in.\<close>

theorem health_response_witness:
  "startup demo_env =
     ([''All required environment variables are set''], Listening demo_config logged_out) \<and>
   is_set (clientSecret (oauth_google demo_config)) \<and>
   handle demo_config demo_world \<lparr> route = Health, query = [] \<rparr> logged_in =
     (Responded (SendJson 200
        (Obj [(''status'', Str ''OK''),
              (''timestamp'', Str ''2024-01-01T00:00:00.000Z''),
              (''environment'', Str ''development''),
              (''authenticated'', Bool True),
              (''config'', Obj [(''port'', Num 3000),
                                (''hasDatabase'', Bool True),
                                (''hasGoogleOAuth'', Bool True)])])),
      logged_in, []) \<and>
   handle (envConfig (\<lambda>v. None)) demo_world \<lparr> route = Health, query = [] \<rparr> logged_out =
     (Responded (SendJson 200
        (Obj [(''status'', Str ''OK''),
              (''timestamp'', Str ''2024-01-01T00:00:00.000Z''),
              (''environment'', Str ''development''),
              (''authenticated'', Bool False),
              (''config'', Obj [(''port'', Num 3000),
                                (''hasDatabase'', Bool False),
                                (''hasGoogleOAuth'', Bool False)])])),
      logged_out, [])"
proof -
  have started: "startup demo_env =
     ([''All required environment variables are set''], Listening demo_config logged_out)"
    by (simp add: startup_def validateConfig_def Let_def scenario_defs)
  note h = health_response [of demo_config demo_world "[]" logged_in]
  from h have served: "\<forall>env out st0. startup env = (out, Listening demo_config st0) \<longrightarrow>
        demo_config = envConfig env \<and>
        is_set (db_url (database demo_config)) \<and> is_set (clientId (oauth_google demo_config)) \<and>
        is_set (clientSecret (oauth_google demo_config))"
    by (rule conjunct2)
  from served started
  have flags: "is_set (db_url (database demo_config))" "is_set (clientId (oauth_google demo_config))"
    "is_set (clientSecret (oauth_google demo_config))"
    by blast+
  have fields: "now demo_world = ''2024-01-01T00:00:00.000Z''"
    "nodeEnv (server demo_config) = ''development''" "port (server demo_config) = Num 3000"
    "currentUser logged_in \<noteq> None"
    by (simp_all add: scenario_defs)
  from h [THEN conjunct1] flags fields
  have signed_in: "handle demo_config demo_world \<lparr> route = Health, query = [] \<rparr> logged_in =
     (Responded (SendJson 200
        (Obj [(''status'', Str ''OK''),
              (''timestamp'', Str ''2024-01-01T00:00:00.000Z''),
              (''environment'', Str ''development''),
              (''authenticated'', Bool True),
              (''config'', Obj [(''port'', Num 3000),
                                (''hasDatabase'', Bool True),
                                (''hasGoogleOAuth'', Bool True)])])),
      logged_in, [])"
    by simp
  have unset: "now demo_world = ''2024-01-01T00:00:00.000Z''"
    "nodeEnv (server (envConfig (\<lambda>v. None))) = ''development''"
    "port (server (envConfig (\<lambda>v. None))) = Num 3000"
    "\<not> is_set (db_url (database (envConfig (\<lambda>v. None))))"
    "\<not> is_set (clientId (oauth_google (envConfig (\<lambda>v. None))))"
    "currentUser logged_out = None"
    by (simp_all add: scenario_defs is_set_def)
  from health_response [of "envConfig (\<lambda>v. None)" demo_world "[]" logged_out, THEN conjunct1] unset
  have nothing_set:
    "handle (envConfig (\<lambda>v. None)) demo_world \<lparr> route = Health, query = [] \<rparr> logged_out =
     (Responded (SendJson 200
        (Obj [(''status'', Str ''OK''),
              (''timestamp'', Str ''2024-01-01T00:00:00.000Z''),
              (''environment'', Str ''development''),
              (''authenticated'', Bool False),
              (''config'', Obj [(''port'', Num 3000),
                                (''hasDatabase'', Bool False),
                                (''hasGoogleOAuth'', Bool False)])])),
      logged_out, [])"
    by simp
  from started flags(3) signed_in nothing_set show ?thesis by simp
qed

subsection \<open>C9: the error parameter comes before the code\<close>

text \<open>
  Claim C9, as stated: every request carrying both an \<^verbatim>\<open>error\<close> and a \<^verbatim>\<open>code\<close>
  parameter gets the 400 page naming the error, and no token exchange is attempted. It
  fails when the \<^verbatim>\<open>error\<close> parameter is the empty string: the request
  \<^verbatim>\<open>?code=abc&error=\<close> reaches the token endpoint, and here, the endpoint refusing the
  code, is answered 500.
\<close>

theorem callback_code_with_empty_error_counterexample:
  "map_of [(''code'', Str ''abc''), (''error'', Str '''')] ''error'' = Some (Str '''') \<and>
   map_of [(''code'', Str ''abc''), (''error'', Str '''')] ''code'' = Some (Str ''abc'') \<and>
   callback demo_config refusing_token_world [(''code'', Str ''abc''), (''error'', Str '''')] logged_out
     = (Responded (Send 500 (auth_failed_page ''Request failed with status code 400'')),
        logged_out, [TokenExchange demo_params])"
  by (simp add: run_defs scenario_defs show_nat.simps digit_char_def)

text \<open>
  Claim C9, amended: for every request carrying a \<^verbatim>\<open>code\<close> parameter and an \<^verbatim>\<open>error\<close>
  parameter that is truthy (not the empty string) and converts to a string, the response
  is the 400 page \<^emph>\<open>Authentication Error\<close> naming that string, the session slot is left
  as it was and no outbound call is made, whatever the code is.
\<close>

theorem callback_error_before_code:
  assumes has_code: "map_of q ''code'' = Some c"
    and has_error: "truthy (js_prop (Obj q) ''error'')"
    and rendered: "js_String (js_prop (Obj q) ''error'') = Inr s"
  shows "callback cfg w q st = (Responded (Send 400 (oauth_error_page s)), st, []) \<and>
         sublist s (oauth_error_page s)"
  using has_error rendered by (simp add: callback_def oauth_error_page_sublist)

text \<open>A provider error that comes with a code.\<close>

theorem callback_error_before_code_witness:
  "map_of [(''error'', Str ''access_denied''), (''code'', Str ''abc'')] ''code'' = Some (Str ''abc'') \<and>
   truthy (js_prop (Obj [(''error'', Str ''access_denied''), (''code'', Str ''abc'')]) ''error'') \<and>
   js_String (js_prop (Obj [(''error'', Str ''access_denied''), (''code'', Str ''abc'')]) ''error'')
     = Inr ''access_denied'' \<and>
   callback demo_config demo_world [(''error'', Str ''access_denied''), (''code'', Str ''abc'')]
       logged_out
     = (Responded (Send 400 (oauth_error_page ''access_denied'')), logged_out, []) \<and>
   sublist ''access_denied'' (oauth_error_page ''access_denied'')"
proof -
  let ?q = "[(''error'', Str ''access_denied''), (''code'', Str ''abc'')]"
  have c: "map_of ?q ''code'' = Some (Str ''abc'')"
    and e: "truthy (js_prop (Obj ?q) ''error'')"
    and s: "js_String (js_prop (Obj ?q) ''error'') = Inr ''access_denied''"
    by simp_all
  from callback_error_before_code [OF c e s, of demo_config demo_world logged_out] c e s
  show ?thesis by simp
qed

subsection \<open>C10: who writes the session slot\<close>

text \<open>
  Claim C10. The handlers of \<^verbatim>\<open>/\<close>, \<^verbatim>\<open>/profile\<close> and \<^verbatim>\<open>/health\<close> leave the session slot
  as it was; a request that changes the state is either a callback that ends in the
  redirect and leaves a user in the slot, or a logout that empties an occupied slot.
\<close>

theorem session_frame:
  assumes run: "handle cfg w req st = (out, st', calls)"
  shows "(route req \<in> {Home, Profile, Health} \<longrightarrow> st' = st)
       \<and> (st' \<noteq> st \<longrightarrow>
            (route req = Callback \<and> out = Responded (RedirectTo ''/'') \<and> currentUser st' \<noteq> None)
          \<or> (route req = Logout \<and> currentUser st \<noteq> None \<and> currentUser st' = None))"
proof (cases "route req")
  case Callback
  with run have cb: "callback cfg w (query req) st = (out, st', calls)"
    by (simp add: handle_def)
  then show ?thesis
  proof (cases rule: callback_cases)
    case (finished res)
    from finished(3) show ?thesis
      by (cases rule: callback_try_cases) (auto simp: finished(4) Callback)
  qed (simp_all add: Callback)
next
  case Home
  with run show ?thesis
    by (auto simp: handle_def home_def split: option.splits sum.splits)
next
  case Logout
  with run show ?thesis
    by (auto simp: handle_def logout_def split: if_splits)
qed (use run in \<open>auto simp: handle_def auth_google_def profile_def health_def not_found_def
       split: option.splits sum.splits\<close>)

text \<open>The home page, a sign-in and a logout.\<close>

theorem session_frame_witness:
  "handle demo_config demo_world \<lparr> route = Home, query = [] \<rparr> logged_in
     = (Responded (Send 200 (welcome_page ''A'' ''p'' ''a@b.com'')), logged_in, []) \<and>
   handle demo_config demo_world \<lparr> route = Callback, query = [(''code'', Str ''abc'')] \<rparr> logged_out
     = (Responded (RedirectTo ''/''), logged_in, demo_calls) \<and>
   logged_in \<noteq> logged_out \<and> currentUser logged_in \<noteq> None \<and>
   handle demo_config demo_world \<lparr> route = Logout, query = [] \<rparr> logged_in
     = (Responded (Send 200 logged_out_page), logged_out, []) \<and>
   currentUser logged_out = None"
proof -
  have home_run: "handle demo_config demo_world \<lparr> route = Home, query = [] \<rparr> logged_in
     = (Responded (Send 200 (welcome_page ''A'' ''p'' ''a@b.com'')), logged_in, [])"
    by (simp add: handle_def home_def logged_in_def demo_user_def)
  have sign_in: "handle demo_config demo_world
       \<lparr> route = Callback, query = [(''code'', Str ''abc'')] \<rparr> logged_out
     = (Responded (RedirectTo ''/''), logged_in, demo_calls)"
    using demo_sign_in by (simp add: handle_def)
  have sign_out: "handle demo_config demo_world \<lparr> route = Logout, query = [] \<rparr> logged_in
     = (Responded (Send 200 logged_out_page), logged_out, [])"
    by (simp add: handle_def logout_def logged_in_def logged_out_def)
  have changed: "logged_in \<noteq> logged_out"
    by (simp add: logged_in_def logged_out_def)
  from session_frame [OF sign_in] changed have occupied: "currentUser logged_in \<noteq> None"
    by simp
  from session_frame [OF sign_out] changed [symmetric] have emptied: "currentUser logged_out = None"
    by simp
  from session_frame [OF home_run] home_run sign_in sign_out changed occupied emptied
  show ?thesis by simp
qed

end
